theory Spec2Isabelle
  imports Main
begin

section \<open>Mass parallel deployment script: a model of \<open>display_config.py\<close>\<close>

text \<open>
  The script pings the /24 network of the local address, filters the answers, and for every
  remaining host opens an SSH session, copies the regular files of a local directory,
  runs a script and removes the copied files again when the script wrote nothing to its
  error stream.

  Everything outside the script (the SSH and SCP libraries, the local file system, the
  ping tool) is an oracle: a record of the results the outside world gives to each call.
  A run of a function is the list of calls it makes, in order. Python strings are byte
  lists (UTF-8), an exception is the text \<open>str(e)\<close> that the handlers format.
  Two things are taken to succeed: \<open>print\<close>, and the file operations of the logger.
  Only exceptions below \<open>Exception\<close> are raised by the libraries involved.
\<close>

subsection \<open>User configuration\<close>

record config =
  REMOTE_USER :: string
  REMOTE_PASSWORD :: string
  REMOTE_DIR :: string
  LOCAL_DIR :: string
  TARGET_FILE_TO_RUN :: string
  USE_SSH_KEY :: bool
  SSH_KEY_PATH :: string
  EXCLUDE_IPS :: "string list"
  MAX_PARALLEL_TASKS :: nat
  LOG_DIR :: string

text \<open>\<open>os.path.join\<close> of two components (posixpath).\<close>

definition path_join :: "string \<Rightarrow> string \<Rightarrow> string" where
  "path_join a b =
     (if take 1 b = ''/'' then b
      else if a = [] \<or> last a = CHR ''/'' then a @ b
      else a @ ''/'' @ b)"



text \<open>The values the script ships with.\<close>

definition shipped_config :: config where
  "shipped_config =
     \<lparr> REMOTE_USER = ''prod'',
       REMOTE_PASSWORD = ''phason'',
       REMOTE_DIR = ''/home/prod/'',
       LOCAL_DIR = ''/home/phason/auto sort ilitek-rev2-scripts calibration/Files'',
       TARGET_FILE_TO_RUN = ''update-ilitek'',
       USE_SSH_KEY = False,
       SSH_KEY_PATH = ''/home/pi/.ssh/id_rsa'',
       EXCLUDE_IPS = [],
       MAX_PARALLEL_TASKS = 250,
       LOG_DIR = ''/home/phason/Logs'' \<rparr>"

subsection \<open>Strings\<close>

text \<open>The non-ASCII symbols of the messages, as their UTF-8 bytes.\<close>

definition sym_arrow :: string where
  "sym_arrow = [CHR 0xE2, CHR 0x86, CHR 0x92]"

definition sym_cross :: string where
  "sym_cross = [CHR 0xE2, CHR 0x9D, CHR 0x8C]"

definition sym_warning :: string where
  "sym_warning = [CHR 0xE2, CHR 0x9A, CHR 0xA0]"

definition sym_check :: string where
  "sym_check = [CHR 0xE2, CHR 0x9C, CHR 0x85]"

definition sym_broom :: string where
  "sym_broom = [CHR 0xF0, CHR 0x9F, CHR 0xA7, CHR 0xB9]"

text \<open>\<open>str.isspace\<close> on the ASCII range, and \<open>str.strip()\<close>.\<close>

definition isspace :: "char \<Rightarrow> bool" where
  "isspace ch = (let n = of_char ch :: nat in (9 \<le> n \<and> n \<le> 13) \<or> (28 \<le> n \<and> n \<le> 32))"

definition strip :: "string \<Rightarrow> string" where
  "strip s = rev (dropWhile isspace (rev (dropWhile isspace s)))"

text \<open>\<open>str(n)\<close> of a non-negative integer.\<close>

definition digit_char :: "nat \<Rightarrow> char" where
  "digit_char d = char_of (48 + d)"

fun str_nat :: "nat \<Rightarrow> string" where
  "str_nat n = (if n < 10 then [digit_char n] else str_nat (n div 10) @ [digit_char (n mod 10)])"

declare str_nat.simps [simp del]

subsection \<open>The outside world of one host's workflow\<close>

datatype exn = Exception string

fun str_exn :: "exn \<Rightarrow> string" where
  "str_exn (Exception text) = text"

text \<open>
  Each field answers one kind of call: \<open>None\<close> of an \<open>exn option\<close> is a call that returns,
  \<open>Some e\<close> one that raises \<open>e\<close>; \<open>Inl e\<close> of a sum is a raise as well.
  \<open>stdout_read\<close> and \<open>stderr_read\<close> are \<open>stdout.read().decode()\<close> and
  \<open>stderr.read().decode()\<close> of the script's run.
\<close>

record env =
  rsa_key_from_file :: "string \<Rightarrow> exn option"
  ssh_connect :: "exn option"
  os_path_isdir :: "string \<Rightarrow> bool"
  os_listdir :: "string \<Rightarrow> exn + string list"
  os_path_isfile :: "string \<Rightarrow> bool"
  scp_put :: "string \<Rightarrow> exn option"
  ssh_exec_command :: "string \<Rightarrow> exn option"
  stdout_read :: "exn + string"
  stderr_read :: "exn + string"

datatype credential = Password "string option" | Pkey string

text \<open>
  The calls a workflow makes. \<open>LogMessage msg error\<close> is \<open>log_message(msg, error=error)\<close>;
  \<open>SshConnect\<close> carries the three timeouts; a call that raises is recorded as well, as the
  attempt it is.
\<close>

datatype action =
    Print string
  | LogMessage string bool
  | RsaKeyFromFile string
  | SshConnect string string credential nat nat nat
  | ScpPut string string
  | ExecCommand string
  | SshClose

subsection \<open>SSH / SCP functions\<close>

definition create_ssh_client ::
  "env \<Rightarrow> string \<Rightarrow> string \<Rightarrow> string option \<Rightarrow> string option \<Rightarrow> exn option \<times> action list" where
  "create_ssh_client e host user password key_path =
     (case key_path of
        Some kp \<Rightarrow>
          (if kp \<noteq> [] then
             (case rsa_key_from_file e kp of
                Some ex \<Rightarrow> (Some ex, [RsaKeyFromFile kp])
              | None \<Rightarrow>
                  (ssh_connect e, [RsaKeyFromFile kp, SshConnect host user (Pkey kp) 10 10 10]))
           else (ssh_connect e, [SshConnect host user (Password password) 10 10 10]))
      | None \<Rightarrow> (ssh_connect e, [SshConnect host user (Password password) 10 10 10]))"

text \<open>
  The transfer loop over \<open>os.listdir(LOCAL_DIR)\<close>, with \<open>transferred_files\<close> as
  accumulator. The result is the exception raised (if any), the list as it stands when
  the loop is left, and the calls made.
\<close>

fun transfer_files ::
  "config \<Rightarrow> env \<Rightarrow> string \<Rightarrow> string list \<Rightarrow> string list \<Rightarrow> exn option \<times> string list \<times> action list" where
  "transfer_files c e ip [] transferred = (None, transferred, [])"
| "transfer_files c e ip (filename # rest) transferred =
     (let full_path = path_join (LOCAL_DIR c) filename in
      if os_path_isfile e full_path then
        (case scp_put e full_path of
           Some ex \<Rightarrow> (Some ex, transferred, [ScpPut full_path (REMOTE_DIR c)])
         | None \<Rightarrow>
             (case transfer_files c e ip rest (transferred @ [filename]) of
                (r, transferred', acts) \<Rightarrow>
                  (r, transferred',
                   [ScpPut full_path (REMOTE_DIR c),
                    LogMessage (ip @ '': Copied '' @ filename) False] @ acts)))
      else transfer_files c e ip rest transferred)"

text \<open>The cleanup loop over \<open>transferred_files\<close>.\<close>

definition cleanup_cmd :: "config \<Rightarrow> string \<Rightarrow> string" where
  "cleanup_cmd c filename = ''rm -f '' @ REMOTE_DIR c @ filename"

fun cleanup :: "config \<Rightarrow> env \<Rightarrow> string \<Rightarrow> string list \<Rightarrow> exn option \<times> action list" where
  "cleanup c e ip [] = (None, [])"
| "cleanup c e ip (filename # rest) =
     (case ssh_exec_command e (cleanup_cmd c filename) of
        Some ex \<Rightarrow> (Some ex, [ExecCommand (cleanup_cmd c filename)])
      | None \<Rightarrow>
          (case cleanup c e ip rest of
             (r, acts) \<Rightarrow>
               (r, [ExecCommand (cleanup_cmd c filename),
                    LogMessage (ip @ '': Deleted '' @ filename @ '' after successful execution.'') False]
                   @ acts)))"

text \<open>Lines 169 to 186: the outcome policy, the output entry and the close.\<close>

definition output_entry :: "string \<Rightarrow> string \<Rightarrow> action list" where
  "output_entry ip output =
     (if output \<noteq> [] then [LogMessage (ip @ '': OUTPUT '' @ sym_arrow @ '' '' @ output) False] else [])"

definition script_error_msg :: "string \<Rightarrow> string \<Rightarrow> string" where
  "script_error_msg ip error = ip @ '': '' @ sym_warning @ '' Script error: '' @ error"

definition script_ok_msg :: "string \<Rightarrow> string" where
  "script_ok_msg ip = ip @ '': '' @ sym_check @ '' Script executed successfully.''"

definition cleaned_up_msg :: "string \<Rightarrow> nat \<Rightarrow> string" where
  "cleaned_up_msg ip n =
     ''['' @ sym_broom @ ''] '' @ ip @ '': Cleaned up '' @ str_nat n @ '' transferred files.''"

definition outcome_policy ::
  "config \<Rightarrow> env \<Rightarrow> string \<Rightarrow> string list \<Rightarrow> string \<Rightarrow> string \<Rightarrow> exn option \<times> action list" where
  "outcome_policy c e ip transferred output error =
     (if error \<noteq> [] then
        (None,
         [Print (script_error_msg ip error), LogMessage (script_error_msg ip error) True]
         @ output_entry ip output @ [SshClose])
      else
        (case cleanup c e ip transferred of
           (Some ex, acts) \<Rightarrow>
             (Some ex, [Print (script_ok_msg ip), LogMessage (script_ok_msg ip) False] @ acts)
         | (None, acts) \<Rightarrow>
             (None,
              [Print (script_ok_msg ip), LogMessage (script_ok_msg ip) False] @ acts
              @ [Print (cleaned_up_msg ip (length transferred))]
              @ output_entry ip output @ [SshClose])))"

text \<open>Lines 161 to 186: chmod, the run of the script, the two reads, then the outcome policy.\<close>

definition chmod_cmd :: "config \<Rightarrow> string" where
  "chmod_cmd c = ''chmod +x '' @ REMOTE_DIR c @ TARGET_FILE_TO_RUN c"

definition run_cmd :: "config \<Rightarrow> string" where
  "run_cmd c = ''bash '' @ REMOTE_DIR c @ TARGET_FILE_TO_RUN c"

definition execute_script ::
  "config \<Rightarrow> env \<Rightarrow> string \<Rightarrow> string list \<Rightarrow> exn option \<times> action list" where
  "execute_script c e ip transferred =
     (case ssh_exec_command e (chmod_cmd c) of
        Some ex \<Rightarrow> (Some ex, [ExecCommand (chmod_cmd c)])
      | None \<Rightarrow>
          (case ssh_exec_command e (run_cmd c) of
             Some ex \<Rightarrow> (Some ex, [ExecCommand (chmod_cmd c), ExecCommand (run_cmd c)])
           | None \<Rightarrow>
               (case stdout_read e of
                  Inl ex \<Rightarrow> (Some ex, [ExecCommand (chmod_cmd c), ExecCommand (run_cmd c)])
                | Inr out \<Rightarrow>
                    (case stderr_read e of
                       Inl ex \<Rightarrow> (Some ex, [ExecCommand (chmod_cmd c), ExecCommand (run_cmd c)])
                     | Inr err \<Rightarrow>
                         (case outcome_policy c e ip transferred (strip out) (strip err) of
                            (r, acts) \<Rightarrow>
                              (r, [ExecCommand (chmod_cmd c), ExecCommand (run_cmd c)] @ acts))))))"

text \<open>
  The body of the \<open>try\<close> of \<open>send_files_and_execute\<close>: what was raised (if anything),
  \<open>transferred_files\<close> as it stands at the end, and the calls made.
\<close>

record attempt =
  raised :: "exn option"
  transferred_files :: "string list"
  calls :: "action list"

definition connecting_msg :: "string \<Rightarrow> string" where
  "connecting_msg ip = ''['' @ sym_arrow @ ''] '' @ ip @ '': Connecting...''"

definition missing_dir_msg :: "config \<Rightarrow> string \<Rightarrow> string" where
  "missing_dir_msg c ip =
     ip @ '': '' @ sym_cross @ '' Local directory '' @ [CHR 0x27] @ LOCAL_DIR c @ [CHR 0x27]
     @ '' missing. Skipping.''"

text \<open>Lines 139 to 143: the call of \<open>create_ssh_client\<close> with the configured credentials.\<close>

definition open_session :: "config \<Rightarrow> env \<Rightarrow> string \<Rightarrow> exn option \<times> action list" where
  "open_session c e ip =
     create_ssh_client e ip (REMOTE_USER c)
       (if USE_SSH_KEY c then None else Some (REMOTE_PASSWORD c))
       (if USE_SSH_KEY c then Some (SSH_KEY_PATH c) else None)"

definition try_body :: "config \<Rightarrow> env \<Rightarrow> string \<Rightarrow> attempt" where
  "try_body c e ip =
     (case open_session c e ip of
        (Some ex, a1) \<Rightarrow>
          \<lparr> raised = Some ex, transferred_files = [], calls = Print (connecting_msg ip) # a1 \<rparr>
      | (None, a1) \<Rightarrow>
          (if \<not> os_path_isdir e (LOCAL_DIR c) then
             \<lparr> raised = None, transferred_files = [],
               calls = Print (connecting_msg ip) # a1
                 @ [Print (missing_dir_msg c ip), LogMessage (missing_dir_msg c ip) True, SshClose] \<rparr>
           else
             (case os_listdir e (LOCAL_DIR c) of
                Inl ex \<Rightarrow>
                  \<lparr> raised = Some ex, transferred_files = [],
                    calls = Print (connecting_msg ip) # a1 \<rparr>
              | Inr names \<Rightarrow>
                  (case transfer_files c e ip names [] of
                     (Some ex, transferred, a2) \<Rightarrow>
                       \<lparr> raised = Some ex, transferred_files = transferred,
                         calls = Print (connecting_msg ip) # a1 @ a2 \<rparr>
                   | (None, transferred, a2) \<Rightarrow>
                       (case execute_script c e ip transferred of
                          (r, a3) \<Rightarrow>
                            \<lparr> raised = r, transferred_files = transferred,
                              calls = Print (connecting_msg ip) # a1 @ a2 @ a3 \<rparr>)))))"

text \<open>
  The whole function: the \<open>except Exception\<close> handler prints and logs \<open>ip: X str(e)\<close>.
  The result says whether an exception leaves the function.
\<close>

definition exception_msg :: "string \<Rightarrow> exn \<Rightarrow> string" where
  "exception_msg ip ex = ip @ '': '' @ sym_cross @ '' '' @ str_exn ex"

definition send_files_and_execute :: "config \<Rightarrow> env \<Rightarrow> string \<Rightarrow> exn option \<times> action list" where
  "send_files_and_execute c e ip =
     (case raised (try_body c e ip) of
        Some ex \<Rightarrow>
          (None, calls (try_body c e ip)
                 @ [Print (exception_msg ip ex), LogMessage (exception_msg ip ex) True])
      | None \<Rightarrow> (None, calls (try_body c e ip)))"

subsection \<open>Reading a run\<close>

text \<open>The commands given to \<open>exec_command\<close>, the files given to \<open>scp.put\<close>, and the messages
  given to the logger with \<open>error=True\<close> and without, each in the order of the calls.\<close>

fun exec_cmds :: "action list \<Rightarrow> string list" where
  "exec_cmds [] = []"
| "exec_cmds (ExecCommand cmd # acts) = cmd # exec_cmds acts"
| "exec_cmds (_ # acts) = exec_cmds acts"

fun put_paths :: "action list \<Rightarrow> string list" where
  "put_paths [] = []"
| "put_paths (ScpPut path remote # acts) = path # put_paths acts"
| "put_paths (_ # acts) = put_paths acts"

fun error_entries :: "action list \<Rightarrow> string list" where
  "error_entries [] = []"
| "error_entries (LogMessage msg True # acts) = msg # error_entries acts"
| "error_entries (_ # acts) = error_entries acts"

fun info_entries :: "action list \<Rightarrow> string list" where
  "info_entries [] = []"
| "info_entries (LogMessage msg False # acts) = msg # info_entries acts"
| "info_entries (_ # acts) = info_entries acts"

text \<open>All messages given to the logger.\<close>

fun log_msgs :: "action list \<Rightarrow> string list" where
  "log_msgs [] = []"
| "log_msgs (LogMessage msg error # acts) = msg # log_msgs acts"
| "log_msgs (_ # acts) = log_msgs acts"

text \<open>A deletion command is an \<open>exec_command\<close> of \<open>rm -f ...\<close>.\<close>

definition is_deletion_cmd :: "string \<Rightarrow> bool" where
  "is_deletion_cmd cmd = (take 6 cmd = ''rm -f '')"

definition deletion_cmds :: "action list \<Rightarrow> string list" where
  "deletion_cmds acts = filter is_deletion_cmd (exec_cmds acts)"

text \<open>The calls that go over the network.\<close>

fun is_network_action :: "action \<Rightarrow> bool" where
  "is_network_action (SshConnect host user cred t1 t2 t3) = True"
| "is_network_action (ScpPut path remote) = True"
| "is_network_action (ExecCommand cmd) = True"
| "is_network_action SshClose = True"
| "is_network_action _ = False"

text \<open>A session is opened when \<open>create_ssh_client\<close> returns; it is closed by \<open>ssh_client.close()\<close>.\<close>

definition session_opened :: "config \<Rightarrow> env \<Rightarrow> string \<Rightarrow> bool" where
  "session_opened c e ip = (fst (open_session c e ip) = None)"

definition session_closed :: "action list \<Rightarrow> bool" where
  "session_closed acts = (SshClose \<in> set acts)"

text \<open>A log entry is tagged with a host when the message starts with the host's address.\<close>

definition tagged :: "string \<Rightarrow> string \<Rightarrow> bool" where
  "tagged ip msg = (take (length ip) msg = ip)"


text \<open>The captured streams of the script as the function holds them: decoded and stripped.\<close>

definition captured_error :: "env \<Rightarrow> string option" where
  "captured_error e = (case stderr_read e of Inl ex \<Rightarrow> None | Inr err \<Rightarrow> Some (strip err))"


subsection \<open>Logging utilities\<close>





text \<open>The file system as the logger sees it: the directories that exist, and the files with
  their contents.\<close>

record filesystem =
  dirs :: "string set"
  files :: "string \<rightharpoonup> string"







definition isdigit :: "char \<Rightarrow> bool" where
  "isdigit ch = (let n = of_char ch :: nat in 48 \<le> n \<and> n \<le> 57)"


subsection \<open>Network functions\<close>

text \<open>
  An IPv4 address is its 32-bit number. \<open>ipaddress.ip_interface(".../p").network\<close> clears
  the host bits; \<open>hosts()\<close> runs from the address after the network address up to the one
  before the broadcast address, except for the prefix lengths 31 and 32.
\<close>

definition network_address :: "nat \<Rightarrow> nat \<Rightarrow> nat" where
  "network_address a p = (a div 2 ^ (32 - p)) * 2 ^ (32 - p)"

definition broadcast_address :: "nat \<Rightarrow> nat \<Rightarrow> nat" where
  "broadcast_address a p = network_address a p + 2 ^ (32 - p) - 1"

definition hosts :: "nat \<Rightarrow> nat \<Rightarrow> nat list" where
  "hosts a p =
     (if p = 31 then [network_address a p, broadcast_address a p]
      else if p = 32 then [network_address a p]
      else [network_address a p + 1 ..< broadcast_address a p])"

definition str_ipv4 :: "nat \<Rightarrow> string" where
  "str_ipv4 a =
     str_nat (a div 2 ^ 24 mod 256) @ ''.'' @ str_nat (a div 2 ^ 16 mod 256) @ ''.''
     @ str_nat (a div 2 ^ 8 mod 256) @ ''.'' @ str_nat (a mod 256)"

text \<open>Lines 214 and 215 of \<open>main\<close>: the prefix length is the literal 24.\<close>

definition candidate_addresses :: "nat \<Rightarrow> nat list" where
  "candidate_addresses local_ip = hosts local_ip 24"

definition ip_list :: "nat \<Rightarrow> string list" where
  "ip_list local_ip = map str_ipv4 (candidate_addresses local_ip)"

datatype ping_run = Returncode int | PingRaised

definition ping_ip :: "(string \<Rightarrow> ping_run) \<Rightarrow> string \<Rightarrow> string option" where
  "ping_ip run ip =
     (case run ip of
        Returncode rc \<Rightarrow> (if rc = 0 then Some ip else None)
      | PingRaised \<Rightarrow> None)"

definition ping_results :: "(string \<Rightarrow> ping_run) \<Rightarrow> nat \<Rightarrow> string option list" where
  "ping_results run local_ip = map (ping_ip run) (ip_list local_ip)"

text \<open>Lines 222 to 225: the comprehension over \<open>ping_results\<close>. \<open>gateway_ip\<close> may be \<open>None\<close>.\<close>

fun active_ips :: "config \<Rightarrow> string \<Rightarrow> string option \<Rightarrow> string option list \<Rightarrow> string list" where
  "active_ips c local_ip gateway_ip [] = []"
| "active_ips c local_ip gateway_ip (None # results) = active_ips c local_ip gateway_ip results"
| "active_ips c local_ip gateway_ip (Some ip # results) =
     (if ip \<noteq> [] \<and> ip \<noteq> local_ip \<and> Some ip \<noteq> gateway_ip \<and> ip \<notin> set (EXCLUDE_IPS c)
      then ip # active_ips c local_ip gateway_ip results
      else active_ips c local_ip gateway_ip results)"

text \<open>The hosts that answered the ping.\<close>

fun live_hosts :: "string option list \<Rightarrow> string list" where
  "live_hosts [] = []"
| "live_hosts (None # results) = live_hosts results"
| "live_hosts (Some ip # results) = ip # live_hosts results"

subsection \<open>The deployment pass\<close>




subsection \<open>Concrete runs\<close>

text \<open>
  A host and outside worlds for it: one where every call returns and the script writes
  \<open>done\<close> to its output and nothing to its error stream, and variations of it.
\<close>

definition host0 :: string where
  "host0 = ''192.168.1.20''"

definition env_ok :: env where
  "env_ok =
     \<lparr> rsa_key_from_file = (\<lambda>path. None),
       ssh_connect = None,
       os_path_isdir = (\<lambda>path. True),
       os_listdir = (\<lambda>path. Inr [''a.sh'', ''b.conf'']),
       os_path_isfile = (\<lambda>path. True),
       scp_put = (\<lambda>path. None),
       ssh_exec_command = (\<lambda>cmd. None),
       stdout_read = Inr (''done'' @ [CHR 0x0A]),
       stderr_read = Inr [] \<rparr>"




definition env_missing_dir :: env where
  "env_missing_dir = env_ok\<lparr>os_path_isdir := (\<lambda>path. False)\<rparr>"

definition env_put_raises :: env where
  "env_put_raises =
     env_ok\<lparr>scp_put :=
       (\<lambda>path. if path = path_join (LOCAL_DIR shipped_config) ''b.conf''
               then Some (Exception ''Connection lost'') else None)\<rparr>"




text \<open>An address written as its four octets.\<close>

definition ipv4 :: "nat \<Rightarrow> nat \<Rightarrow> nat \<Rightarrow> nat \<Rightarrow> nat" where
  "ipv4 a b c d = ((a * 256 + b) * 256 + c) * 256 + d"

text \<open>
  The usable host addresses of a subnet in the spec's words, for any mask width: all
  addresses of the subnet of the given address, except its network address and its
  broadcast address.
\<close>

definition usable_hosts_of_subnet :: "nat \<Rightarrow> nat \<Rightarrow> nat set" where
  "usable_hosts_of_subnet a p =
     {x. network_address x p = network_address a p
         \<and> x \<noteq> network_address a p \<and> x \<noteq> broadcast_address a p}"




section \<open>Properties\<close>

subsection \<open>Reading runs piece by piece\<close>

lemma exec_cmds_append [simp]: "exec_cmds (xs @ ys) = exec_cmds xs @ exec_cmds ys"
  by (induction xs rule: exec_cmds.induct) simp_all

lemma put_paths_append [simp]: "put_paths (xs @ ys) = put_paths xs @ put_paths ys"
  by (induction xs rule: put_paths.induct) simp_all

lemma error_entries_append [simp]: "error_entries (xs @ ys) = error_entries xs @ error_entries ys"
  by (induction xs rule: error_entries.induct) simp_all

lemma info_entries_append [simp]: "info_entries (xs @ ys) = info_entries xs @ info_entries ys"
  by (induction xs rule: info_entries.induct) simp_all

lemma deletion_cmds_append [simp]: "deletion_cmds (xs @ ys) = deletion_cmds xs @ deletion_cmds ys"
  by (simp add: deletion_cmds_def)

lemma is_deletion_cleanup_cmd [simp]: "is_deletion_cmd (cleanup_cmd c f)"
  by (simp add: is_deletion_cmd_def cleanup_cmd_def)

lemma not_deletion_chmod [simp]: "\<not> is_deletion_cmd (chmod_cmd c)"
  by (simp add: is_deletion_cmd_def chmod_cmd_def)

lemma not_deletion_run [simp]: "\<not> is_deletion_cmd (run_cmd c)"
  by (simp add: is_deletion_cmd_def run_cmd_def)

lemma cleanup_cmd_inj [simp]: "cleanup_cmd c f = cleanup_cmd c g \<longleftrightarrow> f = g"
  by (simp add: cleanup_cmd_def)

lemma transfer_files_exec [simp]: "exec_cmds (snd (snd (transfer_files c e ip names tf))) = []"
  by (induction names arbitrary: tf) (auto simp: Let_def split_beta split: option.splits)

lemma transfer_files_errors [simp]: "error_entries (snd (snd (transfer_files c e ip names tf))) = []"
  by (induction names arbitrary: tf) (auto simp: Let_def split_beta split: option.splits)

lemma transfer_files_no_close [simp]: "SshClose \<notin> set (snd (snd (transfer_files c e ip names tf)))"
  by (induction names arbitrary: tf) (auto simp: Let_def split_beta split: option.splits)


lemma transfer_files_subset:
  "set (fst (snd (transfer_files c e ip names tf))) \<subseteq> set tf \<union> set names"
proof (induction names arbitrary: tf)
  case Nil
  show ?case by simp
next
  case (Cons a names)
  from Cons.IH [of "tf @ [a]"] Cons.IH [of tf] show ?case
    by (auto simp: Let_def split_beta split: option.splits)
qed



lemma cleanup_errors [simp]: "error_entries (snd (cleanup c e ip tf)) = []"
  by (induction tf) (auto simp: split_beta split: option.splits)

lemma cleanup_no_close [simp]: "SshClose \<notin> set (snd (cleanup c e ip tf))"
  by (induction tf) (auto simp: split_beta split: option.splits)

lemma cleanup_puts [simp]: "put_paths (snd (cleanup c e ip tf)) = []"
  by (induction tf) (auto simp: split_beta split: option.splits)



lemma cleanup_deletions [simp]:
  "deletion_cmds (snd (cleanup c e ip tf)) = exec_cmds (snd (cleanup c e ip tf))"
  by (induction tf) (auto simp: split_beta deletion_cmds_def split: option.splits)

lemma open_session_exec [simp]: "exec_cmds (snd (open_session c e ip)) = []"
  by (simp add: open_session_def create_ssh_client_def split: option.splits)

lemma open_session_puts [simp]: "put_paths (snd (open_session c e ip)) = []"
  by (simp add: open_session_def create_ssh_client_def split: option.splits)

lemma open_session_errors [simp]: "error_entries (snd (open_session c e ip)) = []"
  by (simp add: open_session_def create_ssh_client_def split: option.splits)

lemma open_session_infos [simp]: "info_entries (snd (open_session c e ip)) = []"
  by (simp add: open_session_def create_ssh_client_def split: option.splits)

lemma open_session_no_close [simp]: "SshClose \<notin> set (snd (open_session c e ip))"
  by (simp add: open_session_def create_ssh_client_def split: option.splits)

lemma output_entry_exec [simp]: "exec_cmds (output_entry ip out) = []"
  by (simp add: output_entry_def)

lemma output_entry_errors [simp]: "error_entries (output_entry ip out) = []"
  by (simp add: output_entry_def)

lemma output_entry_no_close [simp]: "SshClose \<notin> set (output_entry ip out)"
  by (simp add: output_entry_def)

lemma outcome_policy_exec:
  "exec_cmds (snd (outcome_policy c e ip tf out err)) =
     (if err \<noteq> [] then [] else exec_cmds (snd (cleanup c e ip tf)))"
  by (simp add: outcome_policy_def split_beta split: option.splits)


lemma outcome_policy_close:
  "SshClose \<in> set (snd (outcome_policy c e ip tf out err)) \<longleftrightarrow>
     fst (outcome_policy c e ip tf out err) = None"
  by (simp add: outcome_policy_def split_beta split: option.splits)


lemma deletion_cmds_Cons [simp]:
  "deletion_cmds (a # acts) =
     (case a of ExecCommand cmd \<Rightarrow> (if is_deletion_cmd cmd then cmd # deletion_cmds acts else deletion_cmds acts)
      | _ \<Rightarrow> deletion_cmds acts)"
  by (cases a) (simp_all add: deletion_cmds_def)

lemma deletion_cmds_Nil [simp]: "deletion_cmds [] = []"
  by (simp add: deletion_cmds_def)

lemma transfer_files_deletions [simp]: "deletion_cmds (snd (snd (transfer_files c e ip names tf))) = []"
  by (simp add: deletion_cmds_def)

lemma open_session_deletions [simp]: "deletion_cmds (snd (open_session c e ip)) = []"
  by (simp add: deletion_cmds_def)

lemma output_entry_deletions [simp]: "deletion_cmds (output_entry ip out) = []"
  by (simp add: deletion_cmds_def)

lemma outcome_policy_deletions:
  "deletion_cmds (snd (outcome_policy c e ip tf out err)) =
     (if err \<noteq> [] then [] else exec_cmds (snd (cleanup c e ip tf)))"
  by (simp add: outcome_policy_def split_beta split: option.splits)

lemma execute_script_deletions:
  "deletion_cmds (snd (execute_script c e ip tf)) = [] \<or>
     (captured_error e = Some [] \<and>
      deletion_cmds (snd (execute_script c e ip tf)) = exec_cmds (snd (cleanup c e ip tf)))"
  by (simp add: execute_script_def split_beta outcome_policy_deletions captured_error_def
      split: option.splits sum.splits)


lemma execute_script_deletions_error:
  "captured_error e \<noteq> Some [] \<Longrightarrow> deletion_cmds (snd (execute_script c e ip tf)) = []"
  using execute_script_deletions [of c e ip tf] by auto






lemma send_files_deletions [simp]:
  "deletion_cmds (snd (send_files_and_execute c e ip)) = deletion_cmds (calls (try_body c e ip))"
  by (simp add: send_files_and_execute_def split: option.splits)

lemma send_files_exec [simp]:
  "exec_cmds (snd (send_files_and_execute c e ip)) = exec_cmds (calls (try_body c e ip))"
  by (simp add: send_files_and_execute_def split: option.splits)


lemma count_list_cleanup_cmd [simp]:
  "count_list (map (cleanup_cmd c) fs) (cleanup_cmd c f) = count_list fs f"
  by (induction fs) auto



subsection \<open>Deletion of transferred files\<close>




subsection \<open>Exceptions before the cleanup\<close>




subsection \<open>Closing the session\<close>

text \<open>
  Once a session is opened, the run closes it exactly when no exception is raised in the
  \<open>try\<close>: the close is written on the path of the missing directory and at the end of
  the body, and the handler does not close.
\<close>

lemma execute_script_close:
  "SshClose \<in> set (snd (execute_script c e ip tf)) \<longleftrightarrow> fst (execute_script c e ip tf) = None"
  by (auto simp: execute_script_def split_beta outcome_policy_close split: option.splits sum.splits)

lemma session_closed_iff:
  "session_opened c e ip \<Longrightarrow>
     session_closed (snd (send_files_and_execute c e ip)) \<longleftrightarrow> raised (try_body c e ip) = None"
  by (auto simp: session_opened_def session_closed_def send_files_and_execute_def try_body_def
      split_beta execute_script_close split: option.splits sum.splits if_splits)

text \<open>
  C3 at a failing input: the session is opened, the second transfer raises
  \<open>Connection lost\<close>, the handler logs the exception, and the function returns with no
  \<open>ssh_client.close()\<close> among its calls.
\<close>

theorem session_left_open_after_exception:
  "session_opened shipped_config env_put_raises host0
   \<and> raised (try_body shipped_config env_put_raises host0) = Some (Exception ''Connection lost'')
   \<and> snd (send_files_and_execute shipped_config env_put_raises host0) =
       [Print (connecting_msg host0),
        SshConnect host0 ''prod'' (Password (Some ''phason'')) 10 10 10,
        ScpPut ''/home/phason/auto sort ilitek-rev2-scripts calibration/Files/a.sh'' ''/home/prod/'',
        LogMessage (host0 @ '': Copied a.sh'') False,
        ScpPut ''/home/phason/auto sort ilitek-rev2-scripts calibration/Files/b.conf'' ''/home/prod/'',
        Print (exception_msg host0 (Exception ''Connection lost'')),
        LogMessage (exception_msg host0 (Exception ''Connection lost'')) True]
   \<and> \<not> session_closed (snd (send_files_and_execute shipped_config env_put_raises host0))"
  by code_simp

subsection \<open>Missing local directory\<close>

text \<open>
  C2, as the code has it. When a host's workflow finds the local source directory
  missing, which it checks after the session is opened, it makes these calls and no
  others: the opening of the session, one print and one error-log entry tagged with the
  host, and the close of the session. It attempts no file transfer and no remote
  execution, and returns without an exception.
\<close>

theorem missing_local_directory_aborts:
  assumes "session_opened c e ip" and "\<not> os_path_isdir e (LOCAL_DIR c)"
  shows "snd (send_files_and_execute c e ip) =
           Print (connecting_msg ip) # snd (open_session c e ip)
           @ [Print (missing_dir_msg c ip), LogMessage (missing_dir_msg c ip) True, SshClose]
       \<and> fst (send_files_and_execute c e ip) = None
       \<and> error_entries (snd (send_files_and_execute c e ip)) = [missing_dir_msg c ip]
       \<and> tagged ip (missing_dir_msg c ip)
       \<and> put_paths (snd (send_files_and_execute c e ip)) = []
       \<and> exec_cmds (snd (send_files_and_execute c e ip)) = []"
  using assms
  by (simp add: session_opened_def send_files_and_execute_def try_body_def split_beta
      missing_dir_msg_def tagged_def split: option.splits)

theorem missing_local_directory_aborts_witness:
  "session_opened shipped_config env_missing_dir host0
   \<and> \<not> os_path_isdir env_missing_dir (LOCAL_DIR shipped_config)
   \<and> error_entries (snd (send_files_and_execute shipped_config env_missing_dir host0))
       = [missing_dir_msg shipped_config host0]
   \<and> put_paths (snd (send_files_and_execute shipped_config env_missing_dir host0)) = []
   \<and> exec_cmds (snd (send_files_and_execute shipped_config env_missing_dir host0)) = []"
proof -
  have o: "session_opened shipped_config env_missing_dir host0"
    by code_simp
  have d: "\<not> os_path_isdir env_missing_dir (LOCAL_DIR shipped_config)"
    by code_simp
  from missing_local_directory_aborts [OF o d] o d show ?thesis
    by simp
qed

text \<open>
  C2 as stated fails on "before any network action": the connection is made before the
  directory is looked at, and closed afterwards.
\<close>

theorem connect_before_directory_check_counterexample:
  "\<not> os_path_isdir env_missing_dir (LOCAL_DIR shipped_config)
   \<and> snd (send_files_and_execute shipped_config env_missing_dir host0) =
       [Print (connecting_msg host0),
        SshConnect host0 ''prod'' (Password (Some ''phason'')) 10 10 10,
        Print (missing_dir_msg shipped_config host0),
        LogMessage (missing_dir_msg shipped_config host0) True,
        SshClose]
   \<and> filter is_network_action (snd (send_files_and_execute shipped_config env_missing_dir host0)) =
       [SshConnect host0 ''prod'' (Password (Some ''phason'')) 10 10 10, SshClose]"
  by code_simp

subsection \<open>The output entry\<close>







subsection \<open>Exceptions stay inside the workflow\<close>

lemma log_msgs_append [simp]: "log_msgs (xs @ ys) = log_msgs xs @ log_msgs ys"
  by (induction xs rule: log_msgs.induct) simp_all

lemma tagged_prefix [simp]: "tagged ip (ip @ rest)"
  by (simp add: tagged_def)

lemma transfer_files_tagged [simp]:
  "list_all (tagged ip) (log_msgs (snd (snd (transfer_files c e ip names tf))))"
  by (induction names arbitrary: tf) (auto simp: Let_def split_beta split: option.splits)

lemma cleanup_tagged [simp]: "list_all (tagged ip) (log_msgs (snd (cleanup c e ip tf)))"
  by (induction tf) (auto simp: split_beta split: option.splits)

lemma open_session_logs [simp]: "log_msgs (snd (open_session c e ip)) = []"
  by (simp add: open_session_def create_ssh_client_def split: option.splits)

lemma output_entry_tagged [simp]: "list_all (tagged ip) (log_msgs (output_entry ip out))"
  by (simp add: output_entry_def)

lemma outcome_policy_tagged [simp]:
  "list_all (tagged ip) (log_msgs (snd (outcome_policy c e ip tf out err)))"
  by (simp add: outcome_policy_def split_beta script_error_msg_def script_ok_msg_def split: option.splits)

lemma execute_script_tagged [simp]:
  "list_all (tagged ip) (log_msgs (snd (execute_script c e ip tf)))"
  by (simp add: execute_script_def split_beta split: option.splits sum.splits)

lemma try_body_tagged [simp]: "list_all (tagged ip) (log_msgs (calls (try_body c e ip)))"
  by (simp add: try_body_def split_beta missing_dir_msg_def split: option.splits sum.splits)












subsection \<open>The scanned range\<close>

lemma network_address_24: "network_address a 24 = a div 256 * 256"
  by (simp add: network_address_def)

lemma broadcast_address_24: "broadcast_address a 24 = a div 256 * 256 + 255"
  by (simp add: broadcast_address_def network_address_def)

lemma candidate_addresses_upt:
  "candidate_addresses a = [a div 256 * 256 + 1 ..< a div 256 * 256 + 255]"
  by (simp add: candidate_addresses_def hosts_def network_address_24 broadcast_address_24)

lemma slash_24_arith:
  fixes q r p :: nat
  assumes "r < 256"
  shows "(p * 256 + 1 \<le> q * 256 + r \<and> q * 256 + r < p * 256 + 255) \<longleftrightarrow> (q = p \<and> r \<noteq> 0 \<and> r \<noteq> 255)"
proof (cases q p rule: linorder_cases)
  case less
  then show ?thesis using assms by linarith
next
  case equal
  then show ?thesis using assms by linarith
next
  case greater
  then show ?thesis using assms by linarith
qed

lemma in_candidates:
  "x \<in> set (candidate_addresses a) \<longleftrightarrow> x div 256 = a div 256 \<and> x mod 256 \<noteq> 0 \<and> x mod 256 \<noteq> 255"
proof -
  define q where "q = x div 256"
  define r where "r = x mod 256"
  have r: "r < 256" and x: "x = q * 256 + r"
    by (simp_all add: q_def r_def)
  have "x \<in> set (candidate_addresses a) \<longleftrightarrow> a div 256 * 256 + 1 \<le> x \<and> x < a div 256 * 256 + 255"
    unfolding candidate_addresses_upt by (simp only: set_upt atLeastLessThan_iff)
  also have "\<dots> \<longleftrightarrow> q = a div 256 \<and> r \<noteq> 0 \<and> r \<noteq> 255"
    unfolding x using slash_24_arith [OF r, of "a div 256" q] by blast
  finally show ?thesis
    by (simp only: q_def r_def)
qed

lemma same_network_24:
  "network_address x 24 = network_address a 24 \<longleftrightarrow> x div 256 = a div 256"
  by (simp add: network_address_24)


lemma network_broadcast_24_mod:
  "network_address a 24 div 256 = a div 256" "network_address a 24 mod 256 = 0"
  "broadcast_address a 24 div 256 = a div 256" "broadcast_address a 24 mod 256 = 255"
  by (simp_all add: network_address_24 broadcast_address_24)

text \<open>
  C6, as the code has it. For the /24 network of the local address, the only mask width
  the code uses, the candidate sequence holds exactly the usable host addresses of that
  subnet, and neither its network address nor its broadcast address.
\<close>

theorem candidates_are_the_usable_hosts_of_the_slash_24:
  "set (candidate_addresses a) = usable_hosts_of_subnet a 24
   \<and> network_address a 24 \<notin> set (candidate_addresses a)
   \<and> broadcast_address a 24 \<notin> set (candidate_addresses a)"
proof -
  have nb: "network_address a 24 \<notin> set (candidate_addresses a)"
    "broadcast_address a 24 \<notin> set (candidate_addresses a)"
    by (simp_all add: in_candidates network_broadcast_24_mod)
  have "x \<in> usable_hosts_of_subnet a 24 \<longleftrightarrow> x \<in> set (candidate_addresses a)" for x
  proof
    assume "x \<in> usable_hosts_of_subnet a 24"
    then have d: "x div 256 = a div 256" and n: "x \<noteq> a div 256 * 256" and b: "x \<noteq> a div 256 * 256 + 255"
      by (simp_all add: usable_hosts_of_subnet_def same_network_24 network_address_24 broadcast_address_24)
    have x: "x = x div 256 * 256 + x mod 256" by simp
    from d n x have "x mod 256 \<noteq> 0" by auto
    moreover from d b x have "x mod 256 \<noteq> 255" by auto
    ultimately show "x \<in> set (candidate_addresses a)"
      using d by (simp add: in_candidates)
  next
    assume c: "x \<in> set (candidate_addresses a)"
    then have "x div 256 = a div 256" "x mod 256 \<noteq> 0" "x mod 256 \<noteq> 255"
      by (simp_all add: in_candidates)
    moreover from c nb have "x \<noteq> network_address a 24" "x \<noteq> broadcast_address a 24"
      by auto
    ultimately show "x \<in> usable_hosts_of_subnet a 24"
      by (simp add: usable_hosts_of_subnet_def same_network_24)
  qed
  with nb show ?thesis
    by blast
qed

text \<open>
  C6 as stated, for all mask widths, fails: on a /25 subnet the broadcast address
  \<open>192.168.1.127\<close> of the lower half and the network address \<open>192.168.1.128\<close> of the
  upper half are candidates, and on a /16 subnet the usable host \<open>192.168.2.1\<close> is not.
\<close>

theorem other_mask_widths_counterexample:
  "broadcast_address (ipv4 192 168 1 5) 25 = ipv4 192 168 1 127
   \<and> ipv4 192 168 1 127 \<in> set (candidate_addresses (ipv4 192 168 1 5))
   \<and> network_address (ipv4 192 168 1 200) 25 = ipv4 192 168 1 128
   \<and> ipv4 192 168 1 128 \<in> set (candidate_addresses (ipv4 192 168 1 200))
   \<and> ipv4 192 168 2 1 \<in> usable_hosts_of_subnet (ipv4 192 168 1 5) 16
   \<and> ipv4 192 168 2 1 \<notin> set (candidate_addresses (ipv4 192 168 1 5))"
  by (simp add: ipv4_def in_candidates usable_hosts_of_subnet_def network_address_def broadcast_address_def)

subsection \<open>The exclusion filter\<close>

lemma str_ipv4_nonempty [simp]: "str_ipv4 a \<noteq> []" "[] \<noteq> str_ipv4 a"
  by (simp_all add: str_ipv4_def)

lemma live_hosts_ping: "live_hosts (map (ping_ip run) ips) = filter (\<lambda>ip. run ip = Returncode 0) ips"
  by (induction ips) (auto simp: ping_ip_def split: ping_run.splits)

lemma live_hosts_nonempty: "[] \<notin> set (live_hosts (ping_results run a))"
  unfolding ping_results_def live_hosts_ping ip_list_def by auto

lemma active_ips_filter:
  "active_ips c local_ip gateway_ip results =
     filter (\<lambda>ip. ip \<noteq> [] \<and> ip \<noteq> local_ip \<and> Some ip \<noteq> gateway_ip \<and> ip \<notin> set (EXCLUDE_IPS c))
       (live_hosts results)"
  by (induction c local_ip gateway_ip results rule: active_ips.induct) simp_all

text \<open>
  C5. The active hosts are a function of the ping results, the local address, the
  gateway address and the exclusion list alone. They are the live hosts, in their order,
  without the local address, the gateway address (when there is one) and the excluded
  addresses: what is removed is exactly the intersection of these with the live hosts,
  and nothing is added.
\<close>

theorem exclusion_filter_exact:
  "active_ips c local_ip gateway_ip (ping_results run a) =
     filter (\<lambda>ip. ip \<notin> {local_ip} \<union> set_option gateway_ip \<union> set (EXCLUDE_IPS c))
       (live_hosts (ping_results run a))
   \<and> set (active_ips c local_ip gateway_ip (ping_results run a)) =
       set (live_hosts (ping_results run a)) - ({local_ip} \<union> set_option gateway_ip \<union> set (EXCLUDE_IPS c))
   \<and> set (live_hosts (ping_results run a)) - set (active_ips c local_ip gateway_ip (ping_results run a)) =
       ({local_ip} \<union> set_option gateway_ip \<union> set (EXCLUDE_IPS c)) \<inter> set (live_hosts (ping_results run a))"
proof -
  have same: "(ip \<noteq> [] \<and> ip \<noteq> local_ip \<and> Some ip \<noteq> gateway_ip \<and> ip \<notin> set (EXCLUDE_IPS c))
      = (ip \<notin> {local_ip} \<union> set_option gateway_ip \<union> set (EXCLUDE_IPS c))"
    if "ip \<in> set (live_hosts (ping_results run a))" for ip
  proof -
    from that live_hosts_nonempty [of run a] have "ip \<noteq> []"
      by auto
    then show ?thesis
      by (cases gateway_ip) auto
  qed
  have eq: "active_ips c local_ip gateway_ip (ping_results run a) =
     filter (\<lambda>ip. ip \<notin> {local_ip} \<union> set_option gateway_ip \<union> set (EXCLUDE_IPS c))
       (live_hosts (ping_results run a))"
    unfolding active_ips_filter by (rule filter_cong [OF refl]) (rule same)
  show ?thesis
    unfolding eq by auto
qed

subsection \<open>The logger\<close>












lemma newline_not_digit [simp]: "\<not> isdigit (CHR 0x0A)"
  by (simp add: isdigit_def)








end
